theory Spec2Isabelle
  imports Main "HOL-Library.Sublist" "HOL-Library.Word"
begin

section \<open>Data model\<close>

text \<open>
  A Python \<open>str\<close> is a sequence of Unicode code points, a \<open>bytes\<close> object a sequence of
  octets.  File paths and encoding labels are short identifiers and are kept as HOL strings.
\<close>

type_synonym pystr = "nat list"
type_synonym byte = "8 word"
type_synonym path = string
type_synonym filesystem = "path \<rightharpoonup> byte list"

abbreviation LF :: nat where "LF \<equiv> 10"
abbreviation CR :: nat where "CR \<equiv> 13"

datatype error = TypeError | ValueError | LookupError | UnicodeError | OSError

text \<open>
  A method of the window either returns or raises.  An exception leaves the attributes
  assigned before it in place, so both outcomes carry the state reached.
\<close>

datatype 'a outcome = Done 'a | Raised error 'a

fun reached :: "'a outcome \<Rightarrow> 'a" where
  "reached (Done x) = x"
| "reached (Raised e x) = x"

datatype os_family = Posix | Nt

text \<open>
  What the program takes from outside the repository: \<open>str.lower\<close>, \<open>chardet.detect\<close>
  (its \<open>'encoding'\<close> entry), the codec registry behind \<open>io.open\<close> (an unknown label is a
  \<open>LookupError\<close>, undecodable input a \<open>UnicodeError\<close>),
  \<open>locale.getpreferredencoding(False)\<close>, which \<open>io.open\<close> uses for \<open>encoding=None\<close>, the
  operating system family, which fixes \<open>os.linesep\<close>, and which paths can be opened for
  writing.
\<close>

record runtime =
  str_lower :: "pystr \<Rightarrow> pystr"
  chardet_detect :: "byte list \<Rightarrow> string option"
  codec_decode :: "string \<Rightarrow> byte list \<Rightarrow> error + pystr"
  codec_encode :: "string \<Rightarrow> pystr \<Rightarrow> error + byte list"
  preferred_encoding :: string
  os_name :: os_family
  writable :: "path \<Rightarrow> bool"

text \<open>
  The attributes of \<open>MainWindow\<close> that the file and filter operations read or assign.  A
  text widget is the string last set in it (for the display, the argument of
  \<open>setPlainText\<close>; what \<open>toPlainText\<close> returns for it is \<open>to_plain_text\<close> below), a
  button or an input whether it is enabled.
\<close>

record window =
  textfile_data :: "pystr list option"
  encoding :: "string option"
  line_edit :: pystr
  display :: pystr
  filter_button_enabled :: bool
  line_edit_enabled :: bool
  display_enabled :: bool
  open_file_path_label :: path

text \<open>The window as \<open>__init__\<close> leaves it: no data, encoding unknown, tools disabled.\<close>

definition init_window :: window where
  "init_window = \<lparr> textfile_data = None, encoding = None, line_edit = [], display = [],
     filter_button_enabled = False, line_edit_enabled = False, display_enabled = False,
     open_file_path_label = [] \<rparr>"

section \<open>Filtering\<close>

text \<open>
  The comprehension of \<open>filter_display\<close>: the rows \<open>i\<close> of the data with
  \<open>filter_text_data.lower() in i.lower()\<close>.  Python's \<open>in\<close> on strings is the contiguous
  substring test, \<^const>\<open>sublist\<close>.
\<close>

definition matching_rows :: "runtime \<Rightarrow> pystr list \<Rightarrow> pystr \<Rightarrow> pystr list" where
  "matching_rows rt data filter_text_data =
     [i \<leftarrow> data. sublist (str_lower rt filter_text_data) (str_lower rt i)]"

text \<open>The rows that \<open>filter_display\<close> joins: all of them for an empty filter text.\<close>

definition shown_rows :: "runtime \<Rightarrow> pystr list \<Rightarrow> pystr \<Rightarrow> pystr list" where
  "shown_rows rt data filter_text_data =
     (if filter_text_data = [] then data else matching_rows rt data filter_text_data)"

text \<open>
  \<open>filter_display\<close>.  Before any file is loaded \<open>textfile_data\<close> is \<open>None\<close> and
  \<open>''.join(None)\<close> is a \<open>TypeError\<close>.
\<close>

definition filter_display :: "runtime \<Rightarrow> window \<Rightarrow> window outcome" where
  "filter_display rt w =
     (case textfile_data w of
        None \<Rightarrow> Raised TypeError w
      | Some data \<Rightarrow>
          if line_edit w = [] then Done (w\<lparr>display := concat data\<rparr>)
          else Done (w\<lparr>display := concat (matching_rows rt data (line_edit w))\<rparr>))"

section \<open>Reading and writing text files\<close>

text \<open>
  \<open>io.open\<close> in text mode with the default \<open>newline=None\<close>: on reading, \<open>\r\n\<close> and a lone
  \<open>\r\<close> become \<open>\n\<close>; on writing, every \<open>\n\<close> becomes \<open>os.linesep\<close>.
\<close>

fun universal_newlines :: "pystr \<Rightarrow> pystr" where
  "universal_newlines [] = []"
| "universal_newlines [c] = (if c = CR then [LF] else [c])"
| "universal_newlines (c # d # cs) =
     (if c = CR \<and> d = LF then LF # universal_newlines cs
      else if c = CR then LF # universal_newlines (d # cs)
      else c # universal_newlines (d # cs))"

fun os_linesep :: "os_family \<Rightarrow> pystr" where
  "os_linesep Posix = [LF]"
| "os_linesep Nt = [CR, LF]"

definition write_newlines :: "pystr \<Rightarrow> pystr \<Rightarrow> pystr" where
  "write_newlines sep text = concat (map (\<lambda>c. if c = LF then sep else [c]) text)"

text \<open>\<open>readlines\<close> on the translated text: cut after every \<open>\n\<close>, terminators kept.\<close>

fun split_keepends :: "pystr \<Rightarrow> pystr list" where
  "split_keepends [] = []"
| "split_keepends (c # cs) =
     (if c = LF then [c] # split_keepends cs
      else (case split_keepends cs of
              [] \<Rightarrow> [[c]]
            | l # ls \<Rightarrow> (c # l) # ls))"

text \<open>The encoding \<open>io.open\<close> works with: the one given, else the locale's.\<close>

definition resolve_encoding :: "runtime \<Rightarrow> string option \<Rightarrow> string" where
  "resolve_encoding rt enc = (case enc of None \<Rightarrow> preferred_encoding rt | Some e \<Rightarrow> e)"

text \<open>
  The characters \<open>io.open(file_path, encoding=enc)\<close> decodes, before newline translation.  A
  missing file is an \<open>OSError\<close>.
\<close>

definition decoded_text :: "runtime \<Rightarrow> filesystem \<Rightarrow> path \<Rightarrow> string option \<Rightarrow> error + pystr" where
  "decoded_text rt fs file_path enc =
     (case fs file_path of
        None \<Rightarrow> Inl OSError
      | Some bytes \<Rightarrow> codec_decode rt (resolve_encoding rt enc) bytes)"

text \<open>\<open>with io.open(file_path, encoding=enc) as f: f.readlines()\<close>.\<close>

definition readlines :: "runtime \<Rightarrow> filesystem \<Rightarrow> path \<Rightarrow> string option \<Rightarrow> error + pystr list" where
  "readlines rt fs file_path enc =
     (case decoded_text rt fs file_path enc of
        Inl e \<Rightarrow> Inl e
      | Inr text \<Rightarrow> Inr (split_keepends (universal_newlines text)))"

text \<open>
  \<open>f.readline(1000)\<close> on a binary file: the bytes up to and including the first \<open>\n\<close>, at
  most 1000 of them.
\<close>

fun first_line :: "byte list \<Rightarrow> byte list" where
  "first_line [] = []"
| "first_line (b # bs) = (if b = 0x0A then [b] else b # first_line bs)"

definition detect_encoding :: "runtime \<Rightarrow> filesystem \<Rightarrow> path \<Rightarrow> error + string option" where
  "detect_encoding rt fs file_path =
     (case fs file_path of
        None \<Rightarrow> Inl OSError
      | Some bytes \<Rightarrow> Inr (chardet_detect rt (take 1000 (first_line bytes))))"

text \<open>\<open>max(rows, key=len)\<close>: the first row of greatest length, a \<open>ValueError\<close> on no rows.\<close>

fun max_by_len :: "pystr list \<Rightarrow> error + pystr" where
  "max_by_len [] = Inl ValueError"
| "max_by_len (x # xs) = Inr (foldl (\<lambda>m y. if length m < length y then y else m) x xs)"

text \<open>
  The body of the \<open>try\<close> with its \<open>except Exception\<close>: any failure of the first read is
  answered by a second read as UTF-8, whose failure propagates.
\<close>

definition load_rows :: "runtime \<Rightarrow> filesystem \<Rightarrow> path \<Rightarrow> string option \<Rightarrow> error + pystr list" where
  "load_rows rt fs file_path enc =
     (case readlines rt fs file_path enc of
        Inr rows \<Rightarrow> Inr rows
      | Inl _ \<Rightarrow> readlines rt fs file_path (Some ''utf-8''))"

text \<open>\<open>file_path.replace('/', '\\')\<close> for the label on the toolbar.\<close>

definition backslashed :: "path \<Rightarrow> path" where
  "backslashed file_path = map (\<lambda>c. if c = CHR ''/'' then CHR 0x5C else c) file_path"

text \<open>
  \<open>open_file\<close>, given the path the dialog returned (empty when cancelled).  The resize of
  the window to the longest row and the keyboard focus are presentation and left out;
  the longest row is still computed, since that is where an empty file raises.
\<close>

definition open_file :: "runtime \<Rightarrow> filesystem \<Rightarrow> path \<Rightarrow> window \<Rightarrow> window outcome" where
  "open_file rt fs file_path w =
     (if file_path = [] then Done w
      else case detect_encoding rt fs file_path of
        Inl e \<Rightarrow> Raised e w
      | Inr enc \<Rightarrow>
         (let w1 = w\<lparr>encoding := enc\<rparr> in
          case load_rows rt fs file_path enc of
            Inl e \<Rightarrow> Raised e w1
          | Inr rows \<Rightarrow>
             (let w2 = w1\<lparr>textfile_data := Some rows\<rparr> in
              case max_by_len rows of
                Inl e \<Rightarrow> Raised e w2
              | Inr longest_textline \<Rightarrow>
                 (let w3 = w2\<lparr>display := concat rows\<rparr>;
                      w4 = (if rows \<noteq> []
                            then w3\<lparr>filter_button_enabled := True, line_edit_enabled := True,
                                    display_enabled := True\<rparr>
                            else w3\<lparr>filter_button_enabled := False, line_edit_enabled := False\<rparr>)
                  in Done (w4\<lparr>open_file_path_label := backslashed file_path\<rparr>)))))"

text \<open>
  \<open>QPlainTextEdit.toPlainText\<close> for a display whose text was set with \<open>setPlainText\<close>.
  Qt keeps the text as blocks: \<open>\r\n\<close> and \<open>\r\<close> end a block like \<open>\n\<close>, and on
  the way out the paragraph and line separators \<open>U+2029\<close> and \<open>U+2028\<close> and the frame
  marks \<open>U+FDD0\<close> and \<open>U+FDD1\<close> come back as \<open>\n\<close>, the no-break space \<open>U+00A0\<close>
  as a space.
\<close>

definition qt_char :: "nat \<Rightarrow> nat" where
  "qt_char c =
     (if c = 0xFDD0 \<or> c = 0xFDD1 \<or> c = 0x2029 \<or> c = 0x2028 then LF
      else if c = 0xA0 then 0x20
      else c)"

definition to_plain_text :: "pystr \<Rightarrow> pystr" where
  "to_plain_text s = map qt_char (universal_newlines s)"


text \<open>
  \<open>save_file\<close>, given the path the dialog returned.  Opening for writing creates or
  truncates the file before the text is encoded, so a failing codec leaves it empty.
\<close>

definition save_file :: "runtime \<Rightarrow> path \<Rightarrow> window \<Rightarrow> filesystem \<Rightarrow> filesystem outcome" where
  "save_file rt name w fs =
     (if name = [] then Done fs
      else if \<not> writable rt name then Raised OSError fs
      else
        let text = to_plain_text (display w) in
        case codec_encode rt (resolve_encoding rt (encoding w))
               (write_newlines (os_linesep (os_name rt)) text) of
          Inl e \<Rightarrow> Raised e (fs(name \<mapsto> []))
        | Inr bytes \<Rightarrow> Done (fs(name \<mapsto> bytes)))"

text \<open>
  \<open>close_file\<close>: six widget updates, nothing else.  The live filter that \<open>setText\<close> can
  trigger writes only the display, which the next statement empties.
\<close>

definition close_file :: "window \<Rightarrow> window" where
  "close_file w =
     w\<lparr>line_edit := [], display := [], filter_button_enabled := False,
       line_edit_enabled := False, display_enabled := False, open_file_path_label := []\<rparr>"

section \<open>A sample runtime\<close>

text \<open>
  A concrete runtime for evaluating the operations on examples.  Its \<open>lower\<close> is Python's
  on ASCII text, its detector labels pure ASCII data \<open>ascii\<close> and gives no label for
  anything else, and its registry knows ASCII, Latin-1 and UTF-8.
\<close>

definition pystr :: "string \<Rightarrow> pystr" where
  "pystr s = map of_char s"

definition ascii_lower :: "pystr \<Rightarrow> pystr" where
  "ascii_lower s = map (\<lambda>c. if 65 \<le> c \<and> c \<le> 90 then c + 32 else c) s"

definition sample_detect :: "byte list \<Rightarrow> string option" where
  "sample_detect data =
     (if data \<noteq> [] \<and> (\<forall>b \<in> set data. b < 0x80) then Some ''ascii'' else None)"

definition ascii_decode :: "byte list \<Rightarrow> error + pystr" where
  "ascii_decode bs = (if \<forall>b \<in> set bs. b < 0x80 then Inr (map unat bs) else Inl UnicodeError)"

definition ascii_encode :: "pystr \<Rightarrow> error + byte list" where
  "ascii_encode s = (if \<forall>c \<in> set s. c < 0x80 then Inr (map of_nat s) else Inl UnicodeError)"

definition latin1_decode :: "byte list \<Rightarrow> error + pystr" where
  "latin1_decode bs = Inr (map unat bs)"

definition latin1_encode :: "pystr \<Rightarrow> error + byte list" where
  "latin1_encode s = (if \<forall>c \<in> set s. c < 0x100 then Inr (map of_nat s) else Inl UnicodeError)"

definition continuation :: "byte \<Rightarrow> bool" where
  "continuation b \<longleftrightarrow> 0x80 \<le> b \<and> b \<le> 0xBF"

definition low6 :: "byte \<Rightarrow> nat" where
  "low6 b = unat b - 0x80"

text \<open>
  The code point at the head of a UTF-8 byte sequence and the number of bytes it takes;
  overlong forms, surrogates and values beyond \<open>0x10FFFF\<close> are rejected.
\<close>

fun utf8_head :: "byte list \<Rightarrow> (nat \<times> nat) option" where
  "utf8_head [] = None"
| "utf8_head (b # bs) =
     (if b < 0x80 then Some (unat b, 1)
      else if 0xC2 \<le> b \<and> b \<le> 0xDF then
        (case bs of
           c1 # _ \<Rightarrow>
             if continuation c1 then Some ((unat b - 0xC0) * 0x40 + low6 c1, 2) else None
         | _ \<Rightarrow> None)
      else if 0xE0 \<le> b \<and> b \<le> 0xEF then
        (case bs of
           c1 # c2 # _ \<Rightarrow>
             (let cp = (unat b - 0xE0) * 0x1000 + low6 c1 * 0x40 + low6 c2 in
              if continuation c1 \<and> continuation c2 \<and> 0x800 \<le> cp
                 \<and> \<not> (0xD800 \<le> cp \<and> cp \<le> 0xDFFF)
              then Some (cp, 3) else None)
         | _ \<Rightarrow> None)
      else if 0xF0 \<le> b \<and> b \<le> 0xF4 then
        (case bs of
           c1 # c2 # c3 # _ \<Rightarrow>
             (let cp = (unat b - 0xF0) * 0x40000 + low6 c1 * 0x1000 + low6 c2 * 0x40 + low6 c3 in
              if continuation c1 \<and> continuation c2 \<and> continuation c3
                 \<and> 0x10000 \<le> cp \<and> cp \<le> 0x10FFFF
              then Some (cp, 4) else None)
         | _ \<Rightarrow> None)
      else None)"

fun utf8_decode :: "byte list \<Rightarrow> error + pystr" where
  "utf8_decode [] = Inr []"
| "utf8_decode (b # bs) =
     (case utf8_head (b # bs) of
        None \<Rightarrow> Inl UnicodeError
      | Some (cp, n) \<Rightarrow>
          (case utf8_decode (drop (n - 1) bs) of
             Inl e \<Rightarrow> Inl e
           | Inr s \<Rightarrow> Inr (cp # s)))"

definition utf8_char :: "nat \<Rightarrow> byte list option" where
  "utf8_char c =
     (if c < 0x80 then Some [of_nat c]
      else if c < 0x800 then Some [of_nat (0xC0 + c div 0x40), of_nat (0x80 + c mod 0x40)]
      else if 0xD800 \<le> c \<and> c \<le> 0xDFFF then None
      else if c < 0x10000 then
        Some [of_nat (0xE0 + c div 0x1000), of_nat (0x80 + c div 0x40 mod 0x40),
              of_nat (0x80 + c mod 0x40)]
      else if c \<le> 0x10FFFF then
        Some [of_nat (0xF0 + c div 0x40000), of_nat (0x80 + c div 0x1000 mod 0x40),
              of_nat (0x80 + c div 0x40 mod 0x40), of_nat (0x80 + c mod 0x40)]
      else None)"

definition utf8_encode :: "pystr \<Rightarrow> error + byte list" where
  "utf8_encode s =
     (if \<forall>c \<in> set s. utf8_char c \<noteq> None then Inr (concat (map (\<lambda>c. the (utf8_char c)) s))
      else Inl UnicodeError)"

definition sample_decode :: "string \<Rightarrow> byte list \<Rightarrow> error + pystr" where
  "sample_decode label bs =
     (if label = ''ascii'' then ascii_decode bs
      else if label = ''ISO-8859-1'' then latin1_decode bs
      else if label = ''utf-8'' then utf8_decode bs
      else Inl LookupError)"

definition sample_encode :: "string \<Rightarrow> pystr \<Rightarrow> error + byte list" where
  "sample_encode label s =
     (if label = ''ascii'' then ascii_encode s
      else if label = ''ISO-8859-1'' then latin1_encode s
      else if label = ''utf-8'' then utf8_encode s
      else Inl LookupError)"

definition sample_runtime :: "os_family \<Rightarrow> string \<Rightarrow> runtime" where
  "sample_runtime os loc =
     \<lparr> str_lower = ascii_lower, chardet_detect = sample_detect, codec_decode = sample_decode,
       codec_encode = sample_encode, preferred_encoding = loc, os_name = os,
       writable = (\<lambda>_. True) \<rparr>"

text \<open>
  A detector that also knows UTF-8: data with a byte beyond ASCII that is well-formed UTF-8
  is labelled \<open>utf-8\<close>.
\<close>

definition utf8_detect :: "byte list \<Rightarrow> string option" where
  "utf8_detect data =
     (if data = [] then None
      else if list_all (\<lambda>b. b < 0x80) data then Some ''ascii''
      else (case utf8_decode data of Inl _ \<Rightarrow> None | Inr _ \<Rightarrow> Some ''utf-8''))"

text \<open>The rows of the specification's scenario.\<close>

definition population :: "pystr list" where
  "population = map pystr [''City,Year,Population\<newline>'', ''City1,1800,1000\<newline>'',
     ''City1,1900,10000\<newline>'', ''City2,1800,2000\<newline>'']"

text \<open>Three machines: POSIX and Windows in UTF-8 mode, and POSIX under a Latin-1 locale.\<close>

definition posix_rt :: runtime where
  "posix_rt = sample_runtime Posix ''utf-8''"

definition nt_rt :: runtime where
  "nt_rt = sample_runtime Nt ''utf-8''"

definition latin1_rt :: runtime where
  "latin1_rt = sample_runtime Posix ''ISO-8859-1''"

text \<open>POSIX in UTF-8 mode with the detector that knows UTF-8.\<close>

definition utf8_rt :: runtime where
  "utf8_rt = (sample_runtime Posix ''utf-8'')\<lparr>chardet_detect := utf8_detect\<rparr>"

text \<open>The window after a load in a fresh application, with every tool enabled.\<close>

definition window_showing :: "string option \<Rightarrow> pystr list \<Rightarrow> path \<Rightarrow> window" where
  "window_showing enc rows label =
     \<lparr> textfile_data = Some rows, encoding = enc, line_edit = [], display = concat rows,
       filter_button_enabled = True, line_edit_enabled = True, display_enabled = True,
       open_file_path_label = label \<rparr>"

text \<open>
  Sample files: two rows with POSIX and with DOS line ends, an ASCII first row followed by a
  byte that neither ASCII nor UTF-8 accepts, \<open>e\<close> with an acute accent in UTF-8, and an
  empty file.
\<close>

definition unix_bytes :: "byte list" where
  "unix_bytes = [0x41, 0x62, 0x0A, 0x63, 0x0A]"

definition dos_bytes :: "byte list" where
  "dos_bytes = [0x41, 0x62, 0x0D, 0x0A, 0x63, 0x0D, 0x0A]"

definition bad_bytes :: "byte list" where
  "bad_bytes = [0x61, 0x0A, 0xFF]"

definition accent_bytes :: "byte list" where
  "accent_bytes = [0xC3, 0xA9, 0x0A]"


section \<open>Evaluation rules and structure of the operations\<close>

lemmas sample_defs = sample_runtime_def posix_rt_def nt_rt_def latin1_rt_def sample_detect_def
  utf8_rt_def utf8_detect_def
  sample_decode_def sample_encode_def ascii_decode_def ascii_encode_def latin1_decode_def
  latin1_encode_def continuation_def low6_def

lemmas op_defs = open_file_def save_file_def detect_encoding_def load_rows_def readlines_def
  decoded_text_def resolve_encoding_def write_newlines_def backslashed_def to_plain_text_def
  qt_char_def

lemma max_by_len_Inl: "max_by_len rows = Inl e \<longleftrightarrow> rows = [] \<and> e = ValueError"
  by (cases rows) auto

lemma open_file_Done:
  assumes "open_file rt fs p w = Done w'" and "p \<noteq> []"
  shows "\<exists>enc rows. detect_encoding rt fs p = Inr enc \<and> load_rows rt fs p enc = Inr rows
           \<and> rows \<noteq> []
           \<and> w' = w\<lparr>encoding := enc, textfile_data := Some rows, display := concat rows,
                    filter_button_enabled := True, line_edit_enabled := True,
                    display_enabled := True, open_file_path_label := backslashed p\<rparr>"
  using assms
  by (auto simp: open_file_def Let_def max_by_len_Inl split: sum.splits if_splits)

text \<open>The rows of \<open>readlines\<close> are a cutting of the text after its line ends.\<close>

lemma concat_split_keepends: "concat (split_keepends s) = s"
  by (induction s) (auto split: list.splits)

lemma split_keepends_rows:
  "r \<in> set (split_keepends s) \<Longrightarrow> r \<noteq> [] \<and> LF \<notin> set (butlast r)"
proof (induction s arbitrary: r)
  case Nil
  then show ?case by simp
next
  case (Cons c cs)
  show ?case
  proof (cases "c = LF")
    case True
    with Cons show ?thesis by auto
  next
    case False
    show ?thesis
    proof (cases "split_keepends cs")
      case Nil
      with False Cons.prems show ?thesis by auto
    next
      case (Cons l ls)
      have l: "l \<noteq> [] \<and> LF \<notin> set (butlast l)"
        using Cons.IH [of l] Cons by simp
      show ?thesis
      proof (cases "r = c # l")
        case True
        with l False show ?thesis by auto
      next
        case ne: False
        with Cons \<open>c \<noteq> LF\<close> Cons.prems have "r \<in> set (split_keepends cs)" by auto
        then show ?thesis by (rule Cons.IH)
      qed
    qed
  qed
qed

text \<open>
  Reading leaves no \<open>\r\<close> in the text, and changes nothing when there is none.  Writing
  on POSIX changes nothing, and reading undoes what writing does on either system.
\<close>

lemma CR_notin_universal_newlines: "CR \<notin> set (universal_newlines s)"
  by (induction s rule: universal_newlines.induct) auto

lemma universal_newlines_no_CR: "CR \<notin> set s \<Longrightarrow> universal_newlines s = s"
  by (induction s rule: universal_newlines.induct) auto



text \<open>
  Which encoding a load decodes with: the detected one, or UTF-8 after any failure with it;
  with no label, \<open>io.open\<close> takes the locale's encoding, and UTF-8 only if that fails.
\<close>

lemma load_rows_Inr:
  assumes "load_rows rt fs p enc = Inr rows"
  shows "\<exists>enc' text. (enc' = enc \<or> enc' = Some ''utf-8'')
           \<and> decoded_text rt fs p enc' = Inr text
           \<and> rows = split_keepends (universal_newlines text)"
  using assms
  by (auto simp: load_rows_def readlines_def split: sum.splits)

lemma load_rows_fallback:
  "readlines rt fs p enc = Inl e \<Longrightarrow> load_rows rt fs p enc = readlines rt fs p (Some ''utf-8'')"
  by (simp add: load_rows_def)

lemma load_rows_no_label:
  "load_rows rt fs p None =
     (case readlines rt fs p (Some (preferred_encoding rt)) of
        Inr rows \<Rightarrow> Inr rows
      | Inl _ \<Rightarrow> readlines rt fs p (Some ''utf-8''))"
proof -
  have "decoded_text rt fs p None = decoded_text rt fs p (Some (preferred_encoding rt))"
    by (cases "fs p") (simp_all add: decoded_text_def resolve_encoding_def)
  then have "readlines rt fs p None = readlines rt fs p (Some (preferred_encoding rt))"
    by (simp add: readlines_def)
  then show ?thesis
    by (simp add: load_rows_def split: sum.splits)
qed

section \<open>Properties of filtering\<close>

text \<open>
  C1.  For every data and filter text, the rows \<open>filter_display\<close> joins for the display are
  exactly the rows whose lowercase form contains the lowercase filter text as a substring,
  in their original order: a subsequence of the data with nothing reordered, duplicated or
  lost.  Python's \<open>''.lower()\<close> is the empty string, which is all the theorem asks of
  \<open>str.lower\<close>.
\<close>

theorem filter_display_rows:
  assumes "str_lower rt [] = []"
  shows "shown_rows rt data q = filter (\<lambda>i. \<exists>ps ss. str_lower rt i = ps @ str_lower rt q @ ss) data
       \<and> subseq (shown_rows rt data q) data
       \<and> (textfile_data w = Some data \<and> line_edit w = q \<longrightarrow>
            filter_display rt w = Done (w\<lparr>display := concat (shown_rows rt data q)\<rparr>))"
proof -
  have rows: "shown_rows rt data q = matching_rows rt data q"
    using assms by (simp add: shown_rows_def matching_rows_def)
  have "matching_rows rt data q = filter (\<lambda>i. \<exists>ps ss. str_lower rt i = ps @ str_lower rt q @ ss) data"
    by (simp add: matching_rows_def sublist_def)
  moreover have "subseq (matching_rows rt data q) data"
    by (simp add: matching_rows_def)
  moreover have "textfile_data w = Some data \<and> line_edit w = q \<longrightarrow>
            filter_display rt w = Done (w\<lparr>display := concat (shown_rows rt data q)\<rparr>)"
    by (simp add: filter_display_def shown_rows_def)
  ultimately show ?thesis using rows by simp
qed

text \<open>The scenario of the specification, with the filter text in lower case.\<close>

lemma city1_rows:
  "shown_rows posix_rt population (pystr ''city1'')
     = map pystr [''City1,1800,1000\<newline>'', ''City1,1900,10000\<newline>'']"
  by (simp add: shown_rows_def matching_rows_def sample_defs population_def pystr_def
        ascii_lower_def sublist_code(3))

theorem filter_display_rows_witness:
  "str_lower posix_rt [] = []
   \<and> shown_rows posix_rt population (pystr ''city1'')
       = map pystr [''City1,1800,1000\<newline>'', ''City1,1900,10000\<newline>'']
   \<and> subseq (map pystr [''City1,1800,1000\<newline>'', ''City1,1900,10000\<newline>'']) population
   \<and> filter_display posix_rt ((window_showing (Some ''ascii'') population [])\<lparr>line_edit := pystr ''city1''\<rparr>)
       = Done ((window_showing (Some ''ascii'') population [])
                 \<lparr>line_edit := pystr ''city1'',
                  display := concat (map pystr [''City1,1800,1000\<newline>'', ''City1,1900,10000\<newline>''])\<rparr>)"
proof -
  have h: "str_lower posix_rt [] = []"
    by (simp add: sample_defs ascii_lower_def)
  have w: "textfile_data ((window_showing (Some ''ascii'') population [])\<lparr>line_edit := pystr ''city1''\<rparr>) = Some population
        \<and> line_edit ((window_showing (Some ''ascii'') population [])\<lparr>line_edit := pystr ''city1''\<rparr>) = pystr ''city1''"
    by (simp add: window_showing_def)
  note t = filter_display_rows [OF h, of population "pystr ''city1''"
            "(window_showing (Some ''ascii'') population [])\<lparr>line_edit := pystr ''city1''\<rparr>"]
  from t have s: "subseq (shown_rows posix_rt population (pystr ''city1'')) population"
    by blast
  from t w have f: "filter_display posix_rt
        ((window_showing (Some ''ascii'') population [])\<lparr>line_edit := pystr ''city1''\<rparr>)
      = Done ((window_showing (Some ''ascii'') population [])
               \<lparr>line_edit := pystr ''city1'',
                display := concat (shown_rows posix_rt population (pystr ''city1''))\<rparr>)"
    by blast
  from h s f show ?thesis
    unfolding city1_rows by blast
qed

text \<open>
  C2.  With the empty filter text the rows shown are the loaded rows, unchanged and in the
  same order, and the display is set to their concatenation.
\<close>

theorem filter_display_empty_query:
  "shown_rows rt data [] = data
   \<and> (textfile_data w = Some data \<and> line_edit w = [] \<longrightarrow>
        filter_display rt w = Done (w\<lparr>display := concat data\<rparr>))"
  by (simp add: shown_rows_def filter_display_def)

theorem filter_display_empty_query_witness:
  "shown_rows posix_rt population [] = population
   \<and> filter_display posix_rt (window_showing (Some ''ascii'') population [])
       = Done (window_showing (Some ''ascii'') population [])"
  using filter_display_empty_query [of posix_rt population "window_showing (Some ''ascii'') population []"]
  by (simp add: window_showing_def)

text \<open>
  C10.  Filtering is idempotent: for a non-empty filter text, filtering the rows that the
  filter produced gives the same rows again.
\<close>

theorem shown_rows_idempotent:
  "q \<noteq> [] \<Longrightarrow> shown_rows rt (shown_rows rt data q) q = shown_rows rt data q"
  by (simp add: shown_rows_def matching_rows_def)

theorem shown_rows_idempotent_witness:
  "pystr ''city1'' \<noteq> []
   \<and> shown_rows posix_rt (shown_rows posix_rt population (pystr ''city1'')) (pystr ''city1'')
       = shown_rows posix_rt population (pystr ''city1'')"
proof -
  have h: "pystr ''city1'' \<noteq> []" by (simp add: pystr_def)
  show ?thesis using h shown_rows_idempotent [OF h, of posix_rt population] by simp
qed

section \<open>Closing\<close>

text \<open>
  C3, as the code has it.  \<open>close_file\<close> empties the filter text and the display, disables
  the three tools and clears the path label.  It leaves the loaded rows and the encoding as
  they were, and it reads and writes no file: it has no access to the file system.
\<close>

theorem close_file_keeps_data:
  "textfile_data (close_file w) = textfile_data w \<and> encoding (close_file w) = encoding w
   \<and> line_edit (close_file w) = [] \<and> display (close_file w) = []
   \<and> filter_button_enabled (close_file w) = False \<and> line_edit_enabled (close_file w) = False
   \<and> display_enabled (close_file w) = False \<and> open_file_path_label (close_file w) = []"
  by (simp add: close_file_def)

text \<open>
  C3 as stated fails: after loading a two-row ASCII file and closing it, the rows are still
  held and the encoding is still \<open>ascii\<close>.
\<close>

theorem close_file_counterexample:
  "open_file posix_rt [''unix.txt'' \<mapsto> unix_bytes] ''unix.txt'' init_window
     = Done (window_showing (Some ''ascii'') [[65, 98, LF], [99, LF]] ''unix.txt'')
   \<and> textfile_data (close_file (window_showing (Some ''ascii'') [[65, 98, LF], [99, LF]] ''unix.txt''))
       = Some [[65, 98, LF], [99, LF]]
   \<and> encoding (close_file (window_showing (Some ''ascii'') [[65, 98, LF], [99, LF]] ''unix.txt''))
       = Some ''ascii''"
  by (simp add: op_defs sample_defs unix_bytes_def init_window_def window_showing_def close_file_def)

section \<open>Loading\<close>

text \<open>
  C9.  A file that is read as zero rows makes \<open>open_file\<close> raise \<open>ValueError\<close> at the
  computation of the longest row, after the encoding and the empty data have been assigned
  and before the display is touched.  So the branch for empty data is never taken: whenever
  \<open>open_file\<close> returns for a chosen path, the data is not empty and the filter tools are
  enabled.
\<close>

theorem open_file_empty_raises:
  "(file_path \<noteq> [] \<and> detect_encoding rt fs file_path = Inr enc
      \<and> load_rows rt fs file_path enc = Inr [] \<longrightarrow>
      open_file rt fs file_path w = Raised ValueError (w\<lparr>encoding := enc, textfile_data := Some []\<rparr>))
   \<and> (file_path \<noteq> [] \<and> open_file rt fs file_path w = Done w' \<longrightarrow>
        textfile_data w' \<noteq> Some [] \<and> filter_button_enabled w' \<and> line_edit_enabled w')"
proof -
  have "open_file rt fs file_path w = Raised ValueError (w\<lparr>encoding := enc, textfile_data := Some []\<rparr>)"
    if "file_path \<noteq> []" "detect_encoding rt fs file_path = Inr enc"
      "load_rows rt fs file_path enc = Inr []"
    using that by (simp add: open_file_def)
  moreover have "textfile_data w' \<noteq> Some [] \<and> filter_button_enabled w' \<and> line_edit_enabled w'"
    if "file_path \<noteq> []" "open_file rt fs file_path w = Done w'"
    using open_file_Done [OF that(2) that(1)] by auto
  ultimately show ?thesis by blast
qed

theorem open_file_empty_raises_witness:
  "open_file posix_rt [''empty.txt'' \<mapsto> [], ''unix.txt'' \<mapsto> unix_bytes] ''empty.txt'' init_window
     = Raised ValueError (init_window\<lparr>encoding := None, textfile_data := Some []\<rparr>)
   \<and> open_file posix_rt [''empty.txt'' \<mapsto> [], ''unix.txt'' \<mapsto> unix_bytes] ''unix.txt'' init_window
       = Done (window_showing (Some ''ascii'') [[65, 98, LF], [99, LF]] ''unix.txt'')
   \<and> filter_button_enabled (window_showing (Some ''ascii'') [[65, 98, LF], [99, LF]] ''unix.txt'')"
proof -
  let ?fs = "[''empty.txt'' \<mapsto> [], ''unix.txt'' \<mapsto> unix_bytes]"
  let ?w = "window_showing (Some ''ascii'') [[65, 98, LF], [99, LF]] ''unix.txt''"
  have a: "''empty.txt'' \<noteq> [] \<and> detect_encoding posix_rt ?fs ''empty.txt'' = Inr None
      \<and> load_rows posix_rt ?fs ''empty.txt'' None = Inr []"
    by (simp add: op_defs sample_defs)
  have b: "''unix.txt'' \<noteq> [] \<and> open_file posix_rt ?fs ''unix.txt'' init_window = Done ?w"
    by (simp add: op_defs sample_defs unix_bytes_def init_window_def window_showing_def)
  from open_file_empty_raises [where file_path = "''empty.txt''" and rt = posix_rt and fs = ?fs
         and enc = None and w = init_window] a
  have 1: "open_file posix_rt ?fs ''empty.txt'' init_window
     = Raised ValueError (init_window\<lparr>encoding := None, textfile_data := Some []\<rparr>)"
    by blast
  from open_file_empty_raises [where file_path = "''unix.txt''" and rt = posix_rt and fs = ?fs
         and w = init_window and w' = ?w] b
  have 2: "filter_button_enabled ?w" by blast
  from 1 2 b show ?thesis by blast
qed

text \<open>
  C4, as the code has it.  A file is opened in text mode with universal newlines: the rows
  of a loaded file are the decoded text, in its order, cut after each line end, with every
  \<open>\r\n\<close> and every lone \<open>\r\<close> replaced by \<open>\n\<close>.  Each row is non-empty, has
  \<open>\n\<close> at most as its last character and holds no \<open>\r\<close>.  The line ends are those
  of the file only when the decoded text has no \<open>\r\<close>: then the rows concatenate to
  exactly that text.
\<close>

theorem open_file_rows:
  assumes "file_path \<noteq> []" and "open_file rt fs file_path w = Done w'"
  shows "\<exists>enc text rows. (enc = encoding w' \<or> enc = Some ''utf-8'')
           \<and> decoded_text rt fs file_path enc = Inr text
           \<and> textfile_data w' = Some rows
           \<and> rows = split_keepends (universal_newlines text)
           \<and> concat rows = universal_newlines text
           \<and> (\<forall>r \<in> set rows. r \<noteq> [] \<and> LF \<notin> set (butlast r) \<and> CR \<notin> set r)
           \<and> (CR \<notin> set text \<longrightarrow> concat rows = text)"
proof -
  from open_file_Done [OF assms(2) assms(1)] obtain enc rows where
    l: "load_rows rt fs file_path enc = Inr rows" and e: "encoding w' = enc"
    and d: "textfile_data w' = Some rows"
    by auto
  from load_rows_Inr [OF l] obtain enc' decoded where
    c: "enc' = enc \<or> enc' = Some ''utf-8''" and t: "decoded_text rt fs file_path enc' = Inr decoded"
    and r: "rows = split_keepends (universal_newlines decoded)"
    by blast
  have j: "concat rows = universal_newlines decoded"
    using r by (simp add: concat_split_keepends)
  have "CR \<notin> set x" if "x \<in> set rows" for x
  proof -
    from that have "set x \<subseteq> set (concat rows)" by auto
    with j show ?thesis using CR_notin_universal_newlines [of decoded] by auto
  qed
  then have a: "\<forall>x \<in> set rows. x \<noteq> [] \<and> LF \<notin> set (butlast x) \<and> CR \<notin> set x"
    using r split_keepends_rows by blast
  have v: "CR \<notin> set decoded \<longrightarrow> concat rows = decoded"
    using j by (simp add: universal_newlines_no_CR)
  from c e t d r j a v show ?thesis by blast
qed

theorem open_file_rows_witness:
  "''dos.txt'' \<noteq> []
   \<and> open_file posix_rt [''dos.txt'' \<mapsto> dos_bytes] ''dos.txt'' init_window
       = Done (window_showing (Some ''ascii'') [[65, 98, LF], [99, LF]] ''dos.txt'')
   \<and> (\<exists>enc text. decoded_text posix_rt [''dos.txt'' \<mapsto> dos_bytes] ''dos.txt'' enc = Inr text
         \<and> [[65, 98, LF], [99, LF]] = split_keepends (universal_newlines text))"
proof -
  have p: "''dos.txt'' \<noteq> []" by simp
  have l: "open_file posix_rt [''dos.txt'' \<mapsto> dos_bytes] ''dos.txt'' init_window
       = Done (window_showing (Some ''ascii'') [[65, 98, LF], [99, LF]] ''dos.txt'')"
    by (simp add: op_defs sample_defs dos_bytes_def init_window_def window_showing_def)
  have d: "textfile_data (window_showing (Some ''ascii'') [[65, 98, LF], [99, LF]] ''dos.txt'')
       = Some [[65, 98, LF], [99, LF]]"
    by (simp add: window_showing_def)
  from open_file_rows [OF p l] d
  have "\<exists>enc text. decoded_text posix_rt [''dos.txt'' \<mapsto> dos_bytes] ''dos.txt'' enc = Inr text
         \<and> [[65, 98, LF], [99, LF]] = split_keepends (universal_newlines text)"
    by auto
  with p l show ?thesis by blast
qed

text \<open>
  C4 as stated fails: a file with the rows \<open>Ab\<close> and \<open>c\<close> ended by \<open>\r\n\<close> is
  loaded as rows ended by \<open>\n\<close>.
\<close>

theorem open_file_line_ends_counterexample:
  "decoded_text posix_rt [''dos.txt'' \<mapsto> dos_bytes] ''dos.txt'' (Some ''ascii'')
     = Inr [65, 98, CR, LF, 99, CR, LF]
   \<and> open_file posix_rt [''dos.txt'' \<mapsto> dos_bytes] ''dos.txt'' init_window
       = Done (window_showing (Some ''ascii'') [[65, 98, LF], [99, LF]] ''dos.txt'')"
  by (simp add: op_defs sample_defs dos_bytes_def init_window_def window_showing_def)

text \<open>
  C6, as the code has it.  When decoding fails with the detected encoding and again with
  UTF-8, \<open>open_file\<close> raises the error of the UTF-8 attempt.  The rows, the display and
  the tools are as before the call; the encoding is not: it was replaced by the result of
  the detection before the first attempt.
\<close>

theorem open_file_decode_failure:
  assumes "file_path \<noteq> []" and "detect_encoding rt fs file_path = Inr enc"
    and "decoded_text rt fs file_path enc = Inl e1"
    and "decoded_text rt fs file_path (Some ''utf-8'') = Inl e2"
  shows "open_file rt fs file_path w = Raised e2 (w\<lparr>encoding := enc\<rparr>)"
  using assms by (simp add: open_file_def load_rows_def readlines_def)

theorem open_file_decode_failure_witness:
  "open_file posix_rt [''bad.txt'' \<mapsto> bad_bytes] ''bad.txt''
      (window_showing (Some ''utf-8'') [[65, 98, LF], [99, LF]] ''unix.txt'')
     = Raised UnicodeError (window_showing (Some ''ascii'') [[65, 98, LF], [99, LF]] ''unix.txt'')"
proof -
  let ?fs = "[''bad.txt'' \<mapsto> bad_bytes]"
  have p: "''bad.txt'' \<noteq> []" by simp
  have d: "detect_encoding posix_rt ?fs ''bad.txt'' = Inr (Some ''ascii'')"
    by (simp add: op_defs sample_defs bad_bytes_def)
  have a: "decoded_text posix_rt ?fs ''bad.txt'' (Some ''ascii'') = Inl UnicodeError"
    by (simp add: op_defs sample_defs bad_bytes_def)
  have u: "decoded_text posix_rt ?fs ''bad.txt'' (Some ''utf-8'') = Inl UnicodeError"
    by (simp add: op_defs sample_defs bad_bytes_def)
  show ?thesis
    using open_file_decode_failure [OF p d a u,
        of "window_showing (Some ''utf-8'') [[65, 98, LF], [99, LF]] ''unix.txt''"]
    by (simp add: window_showing_def)
qed

text \<open>
  C6 as stated fails: in a fresh window, loading a file whose first row is ASCII and whose
  second row is the byte \<open>0xFF\<close> raises and leaves the encoding \<open>ascii\<close>, where it was
  unknown before.
\<close>

theorem open_file_decode_failure_counterexample:
  "open_file posix_rt [''bad.txt'' \<mapsto> bad_bytes] ''bad.txt'' init_window
     = Raised UnicodeError (init_window\<lparr>encoding := Some ''ascii''\<rparr>)
   \<and> encoding (init_window\<lparr>encoding := Some ''ascii''\<rparr>) \<noteq> encoding init_window"
  by (simp add: op_defs sample_defs bad_bytes_def init_window_def)

text \<open>
  C7 at an input where the code departs from it.  Under a Latin-1 locale, a file holding
  \<open>e\<close> with an acute accent in UTF-8, for which the detector has no label, is decoded
  with the locale's encoding into two characters; the UTF-8 reading, which has one, is
  never attempted.
\<close>

theorem open_file_no_label_uses_locale:
  "detect_encoding latin1_rt [''accent.txt'' \<mapsto> accent_bytes] ''accent.txt'' = Inr None
   \<and> open_file latin1_rt [''accent.txt'' \<mapsto> accent_bytes] ''accent.txt'' init_window
       = Done (window_showing None [[195, 169, LF]] ''accent.txt'')
   \<and> readlines latin1_rt [''accent.txt'' \<mapsto> accent_bytes] ''accent.txt'' (Some ''utf-8'')
       = Inr [[233, LF]]"
  by (simp add: op_defs sample_defs accent_bytes_def init_window_def window_showing_def)

section \<open>Saving\<close>






section \<open>Loading, saving and loading again\<close>




end
